theory Spec2Isabelle
  imports Complex_Main
begin

section \<open>Python values\<close>

text \<open>
  The service is one Python module, \<^verbatim>\<open>ai_service/main.py\<close>. Its integers are
  unbounded (\<^typ>\<open>int\<close>). Outside the exposure endpoint its floats are modelled as
  \<^typ>\<open>real\<close>: every arithmetic operation is exact, so an overflow to infinity, a NaN
  and the rounding of the last bit of a binary64 result are outside that part of the
  model. The exposure endpoint is modelled in binary64. Strings are byte lists; a
  character outside ASCII stands as the bytes of its UTF-8 encoding. A dict literal that
  an endpoint returns is a record with the keys as fields; where two records have a
  field of the same name, the later one is written with its record's name in front
  (\<open>AirQualityData.aqi\<close>, \<open>Conversion.aqi\<close>).
\<close>

text \<open>
  \<^verbatim>\<open>round(x)\<close> of a float: the nearest integer, a tie going to the even
  neighbour.
\<close>

definition py_round :: "real \<Rightarrow> int" where
  "py_round x =
     (let f = \<lfloor>x\<rfloor>; d = x - of_int f
      in if d < 1 / 2 then f
         else if 1 / 2 < d then f + 1
         else if even f then f else f + 1)"


text \<open>\<^verbatim>\<open>int(x)\<close> of a float truncates towards zero.\<close>

definition py_int :: "real \<Rightarrow> int" where
  "py_int x = (if 0 \<le> x then \<lfloor>x\<rfloor> else \<lceil>x\<rceil>)"

text \<open>\<^verbatim>\<open>str(n)\<close> of a non-negative integer: its decimal digits.\<close>

fun str_nat :: "nat \<Rightarrow> string" where
  "str_nat n =
     (if n < 10 then [''0123456789'' ! n]
      else str_nat (n div 10) @ [''0123456789'' ! (n mod 10)])"

declare str_nat.simps [simp del]

text \<open>
  Exceptions are values. The detail of an \<^verbatim>\<open>HTTPException\<close> is either a literal
  or an f-string \<^verbatim>\<open>f"<prefix>{str(e)}"\<close> over a caught exception \<open>e\<close>; the
  latter is kept as the pair of the prefix and \<open>e\<close>, since \<^verbatim>\<open>str(e)\<close> is the
  library's.
\<close>

datatype exn =
    ValueError
  | KeyError string
  | OverflowError
  | ZeroDivisionError
  | HTTPException nat detail
and detail =
    Text string
  | Prefixed string exn

text \<open>
  Every endpoint but the converter has the shape
  \<^verbatim>\<open>try: ... except Exception as e: raise HTTPException(status_code=500, detail=f"<prefix>{str(e)}")\<close>.
  \<^verbatim>\<open>HTTPException\<close> is itself an \<^verbatim>\<open>Exception\<close>, so one raised inside the
  \<^verbatim>\<open>try\<close> is caught and wrapped too.
\<close>

definition try_except :: "string \<Rightarrow> exn + 'a \<Rightarrow> exn + 'a" where
  "try_except prefix r =
     (case r of
        Inl e \<Rightarrow> Inl (HTTPException 500 (Prefixed prefix e))
      | Inr v \<Rightarrow> Inr v)"

text \<open>
  An exception raised inside an \<^verbatim>\<open>except\<close> block keeps the exception being
  handled as its \<^verbatim>\<open>__context__\<close>. Following that chain to its end gives the
  exception that was raised first.
\<close>

fun original_exception :: "exn \<Rightarrow> exn" where
  "original_exception (HTTPException status (Prefixed prefix e)) = original_exception e"
| "original_exception e = e"

text \<open>
  A naive \<^verbatim>\<open>datetime\<close> is the number of microseconds since
  0001-01-01T00:00:00; the largest one is 9999-12-31T23:59:59.999999, which is
  3652059 days less one microsecond. \<^verbatim>\<open>isoformat()\<close> is an injective rendering
  of a datetime: a timestamp of the model is the datetime it renders.
\<close>

type_synonym datetime = nat

definition datetime_max :: datetime where
  "datetime_max = 3652059 * 86400 * 1000000 - 1"

text \<open>\<^verbatim>\<open>t + timedelta(hours=h)\<close> raises OverflowError beyond the largest datetime.\<close>

definition add_hours :: "datetime \<Rightarrow> nat \<Rightarrow> exn + datetime" where
  "add_hours t h =
     (if t + h * 3600000000 \<le> datetime_max then Inr (t + h * 3600000000)
      else Inl OverflowError)"

text \<open>\<^verbatim>\<open>t.hour\<close>\<close>

definition hour_of :: "datetime \<Rightarrow> nat" where
  "hour_of t = (t div 3600000000) mod 24"

section \<open>Enums and models\<close>

datatype SensitivityLevel = LOW | MODERATE | HIGH | VERY_HIGH

datatype ActivityType = RESTING | LIGHT_ACTIVITY | MODERATE_EXERCISE | INTENSE_EXERCISE

record AirQualityData =
  pm25 :: real
  pm10 :: "real option"
  co2 :: "int option"
  o3 :: "real option"
  no2 :: "real option"
  aqi :: int
  temperature :: real
  humidity :: real
  timestamp :: datetime

record HealthProfile =
  age :: int
  has_asthma :: bool
  has_copd :: bool
  has_heart_condition :: bool
  is_pregnant :: bool
  is_child :: bool
  is_elderly :: bool
  sensitivity_level :: SensitivityLevel


section \<open>AQI categories\<close>

text \<open>
  \<^verbatim>\<open>AQI_CATEGORIES\<close> is a dict literal; iterating \<^verbatim>\<open>.items()\<close> visits the
  entries in the order written.
\<close>

definition AQI_CATEGORIES :: "(string \<times> int \<times> int) list" where
  "AQI_CATEGORIES =
     [(''good'', 0, 50),
      (''moderate'', 51, 100),
      (''unhealthy_sensitive'', 101, 150),
      (''unhealthy'', 151, 200),
      (''very_unhealthy'', 201, 300),
      (''hazardous'', 301, 500)]"

fun first_category :: "(string \<times> int \<times> int) list \<Rightarrow> int \<Rightarrow> string" where
  "first_category [] a = ''hazardous''"
| "first_category ((category, low, high) # rest) a =
     (if low \<le> a \<and> a \<le> high then category else first_category rest a)"

definition get_aqi_category :: "int \<Rightarrow> string" where
  "get_aqi_category a = first_category AQI_CATEGORIES a"

section \<open>Safe activity window\<close>

definition calculate_safe_window :: "AirQualityData \<Rightarrow> HealthProfile \<Rightarrow> int" where
  "calculate_safe_window aq hp =
     (if aqi aq < 50 then 240
      else if aqi aq < 100 then 120
      else if aqi aq < 150 then
        (if sensitivity_level hp \<in> set [HIGH, VERY_HIGH] then 30 else 60)
      else if aqi aq < 200 then
        (if sensitivity_level hp = LOW then 30 else 15)
      else 0)"

section \<open>Health risk score\<close>

fun activity_multipliers :: "ActivityType \<Rightarrow> real" where
  "activity_multipliers RESTING = 1.0"
| "activity_multipliers LIGHT_ACTIVITY = 1.3"
| "activity_multipliers MODERATE_EXERCISE = 1.8"
| "activity_multipliers INTENSE_EXERCISE = 2.5"

fun sensitivity_multipliers :: "SensitivityLevel \<Rightarrow> real" where
  "sensitivity_multipliers LOW = 0.8"
| "sensitivity_multipliers MODERATE = 1.0"
| "sensitivity_multipliers HIGH = 1.4"
| "sensitivity_multipliers VERY_HIGH = 1.8"

text \<open>
  The successive assignments to \<^verbatim>\<open>base_risk\<close> are the numbered bindings below.
  \<^verbatim>\<open>if air_quality.pm25:\<close> tests the truth value of a float: it is false exactly
  at zero.
\<close>

definition calculate_health_risk_score ::
  "AirQualityData \<Rightarrow> HealthProfile \<Rightarrow> ActivityType \<Rightarrow> real" where
  "calculate_health_risk_score aq hp activity =
     (let base_risk0 = real_of_int (aqi aq) / 5;
          base_risk1 =
            (if pm25 aq \<noteq> 0
             then (let pm25_risk = min (pm25 aq / 2) 100 in max base_risk0 pm25_risk)
             else base_risk0);
          base_risk2 = base_risk1 * activity_multipliers activity;
          base_risk3 = base_risk2 * sensitivity_multipliers (sensitivity_level hp);
          base_risk4 = (if has_asthma hp \<or> has_copd hp then base_risk3 * 1.5 else base_risk3);
          base_risk5 = (if has_heart_condition hp then base_risk4 * 1.3 else base_risk4);
          base_risk6 = (if is_child hp \<or> is_elderly hp then base_risk5 * 1.2 else base_risk5);
          base_risk7 = (if is_pregnant hp then base_risk6 * 1.3 else base_risk6);
          base_risk8 =
            (if age hp < 12 then base_risk7 * 1.2
             else if age hp > 65 then base_risk7 * 1.3
             else base_risk7)
      in min base_risk8 100)"

section \<open>Recommendations\<close>

record Recommendation =
  priority :: string
  action :: string
  message :: string
  icon :: string











section \<open>The endpoint analyze-health-risk\<close>

record AnalysisResponse =
  risk_score :: real
  risk_level :: string
  aqi_category :: string
  recommendations :: "Recommendation list"
  safe_activity_duration :: int
  requires_mask :: bool
  air_purifier_recommended :: bool


section \<open>The endpoint forecast-aqi\<close>

text \<open>
  A historical reading is a \<^verbatim>\<open>Dict\<close>; the forecaster reads its key
  \<^verbatim>\<open>"aqi"\<close> only, and a reading without that key raises KeyError. The values
  are taken to be numbers.
\<close>

type_synonym reading = "string \<rightharpoonup> real"

record ForecastRequest =
  historical_data :: "reading list"
  location :: "string \<rightharpoonup> real"
  hours_ahead :: int

record ForecastPoint =
  timestamp :: datetime
  predicted_aqi :: int
  category :: string
  confidence :: string

record BestTime =
  time :: datetime
  aqi :: int
  suitable_for :: string

text \<open>\<^verbatim>\<open>xs[-n:]\<close> for a positive \<open>n\<close>: the last \<open>n\<close> elements, or all of a shorter list.\<close>

definition last_n :: "nat \<Rightarrow> 'a list \<Rightarrow> 'a list" where
  "last_n n xs = drop (length xs - n) xs"

text \<open>\<^verbatim>\<open>np.mean\<close>, called on lists of at least 24 elements only.\<close>

definition np_mean :: "real list \<Rightarrow> real" where
  "np_mean xs = sum_list xs / real (length xs)"

text \<open>\<^verbatim>\<open>[reading["aqi"] for reading in ...]\<close>\<close>

fun aqi_values_of :: "reading list \<Rightarrow> exn + real list" where
  "aqi_values_of [] = Inr []"
| "aqi_values_of (r # rest) =
     (case r ''aqi'' of
        None \<Rightarrow> Inl (KeyError ''aqi'')
      | Some v \<Rightarrow>
          (case aqi_values_of rest of
             Inl e \<Rightarrow> Inl e
           | Inr vs \<Rightarrow> Inr (v # vs)))"

text \<open>The time-of-day pattern applied to a prediction.\<close>

definition time_of_day_pattern :: "nat \<Rightarrow> real \<Rightarrow> real" where
  "time_of_day_pattern hour_of_day p =
     (if (7 \<le> hour_of_day \<and> hour_of_day \<le> 9) \<or> (17 \<le> hour_of_day \<and> hour_of_day \<le> 19)
      then p * 1.15
      else if 2 \<le> hour_of_day \<and> hour_of_day \<le> 5 then p * 0.90
      else p)"

text \<open>
  One pass of the loop \<^verbatim>\<open>for hour in range(request.hours_ahead)\<close>: the entry it
  appends, or the exception of the datetime addition. The category is taken from the
  truncated prediction, the reported value from the rounded one.
\<close>

definition forecast_entry :: "datetime \<Rightarrow> real \<Rightarrow> real \<Rightarrow> nat \<Rightarrow> exn + ForecastPoint" where
  "forecast_entry current_time ma_24 tr hour =
     (case add_hours current_time hour of
        Inl e \<Rightarrow> Inl e
      | Inr future_time \<Rightarrow>
          (let p0 = ma_24 + (tr * real hour / 24);
               p1 = time_of_day_pattern (hour_of future_time) p0;
               p2 = max 0 (min 500 p1)
           in Inr \<lparr>timestamp = future_time,
                   predicted_aqi = py_round p2,
                   category = get_aqi_category (py_int p2),
                   confidence = ''medium''\<rparr>))"

fun forecast_loop :: "datetime \<Rightarrow> real \<Rightarrow> real \<Rightarrow> nat list \<Rightarrow> exn + ForecastPoint list" where
  "forecast_loop current_time ma_24 tr [] = Inr []"
| "forecast_loop current_time ma_24 tr (hour # hours) =
     (case forecast_entry current_time ma_24 tr hour of
        Inl e \<Rightarrow> Inl e
      | Inr p \<Rightarrow>
          (case forecast_loop current_time ma_24 tr hours of
             Inl e \<Rightarrow> Inl e
           | Inr ps \<Rightarrow> Inr (p # ps)))"

definition best_time_entries :: "ForecastPoint \<Rightarrow> BestTime list" where
  "best_time_entries forecast =
     (if predicted_aqi forecast < 100 then
        [\<lparr>time = timestamp forecast, aqi = predicted_aqi forecast,
          suitable_for = ''all_activities''\<rparr>]
      else if predicted_aqi forecast < 150 then
        [\<lparr>time = timestamp forecast, aqi = predicted_aqi forecast,
          suitable_for = ''light_activities''\<rparr>]
      else [])"

definition find_best_activity_times :: "ForecastPoint list \<Rightarrow> BestTime list" where
  "find_best_activity_times fs = take 5 (concat (map best_time_entries fs))"

record ForecastSeries =
  location :: "string \<rightharpoonup> real"
  forecast_generated_at :: datetime
  forecasts :: "ForecastPoint list"
  trend :: string
  best_activity_times :: "BestTime list"

text \<open>
  The endpoint returns either the dict \<^verbatim>\<open>{"error": ...}\<close> or the forecast dict;
  both are normal returns.
\<close>

datatype ForecastResult = ErrorDict string | ForecastDict ForecastSeries

text \<open>
  \<^verbatim>\<open>datetime.now()\<close> reads the clock of the host. The reading is the second
  argument of the model.
\<close>

definition forecast_aqi :: "ForecastRequest \<Rightarrow> datetime \<Rightarrow> exn + ForecastResult" where
  "forecast_aqi request now =
     try_except ''Forecast error: ''
       (if length (historical_data request) < 24
        then Inr (ErrorDict ''Need at least 24 hours of historical data'')
        else
          (case aqi_values_of (last_n 168 (historical_data request)) of
             Inl e \<Rightarrow> Inl e
           | Inr aqi_values \<Rightarrow>
               (let ma_24 = np_mean (last_n 24 aqi_values);
                    ma_48 = (if length aqi_values \<ge> 48 then np_mean (last_n 48 aqi_values)
                             else ma_24);
                    tr = ma_24 - ma_48;
                    current_time = now
                in case forecast_loop current_time ma_24 tr
                          [0..<nat (hours_ahead request)] of
                     Inl e \<Rightarrow> Inl e
                   | Inr fs \<Rightarrow>
                       Inr (ForecastDict
                         \<lparr>location = ForecastRequest.location request,
                          forecast_generated_at = current_time,
                          forecasts = fs,
                          trend = (if tr < - 5 then ''improving''
                                   else if tr > 5 then ''worsening'' else ''stable''),
                          best_activity_times = find_best_activity_times fs\<rparr>))))"

section \<open>Binary64 arithmetic\<close>

text \<open>
  The exposure endpoint returns integers rounded from float sums, and the last bit of a
  sum decides the integer at a tie. That endpoint is therefore modelled in binary64:
  a float is a real that the format holds, an infinity or NaN. The sign of a zero is
  not kept.
\<close>

datatype pyfloat = Finite real | PosInf | NegInf | NaN

text \<open>
  The binary exponent of a positive real \<open>x\<close>, that is the \<open>e\<close> with
  \<open>2 ^ e \<le> x < 2 ^ (e + 1)\<close>: the number of halvings that bring \<open>x\<close> below 2, or
  minus the number of doublings that bring it up to 1.
\<close>

function halvings :: "real \<Rightarrow> nat" where
  "halvings x = (if 2 \<le> x then Suc (halvings (x / 2)) else 0)"
  by pat_completeness auto
termination
proof (relation "measure (\<lambda>x. nat \<lfloor>x\<rfloor>)")
  show "wf (measure (\<lambda>x::real. nat \<lfloor>x\<rfloor>))" by simp
next
  fix x :: real
  assume "2 \<le> x"
  then have "\<lfloor>x / 2\<rfloor> < \<lfloor>x\<rfloor>" by linarith
  moreover have "0 < \<lfloor>x\<rfloor>" using \<open>2 \<le> x\<close> by linarith
  ultimately show "(x / 2, x) \<in> measure (\<lambda>x. nat \<lfloor>x\<rfloor>)" by simp
qed

function doublings :: "real \<Rightarrow> nat" where
  "doublings x = (if 0 < x \<and> x < 1 then Suc (doublings (x * 2)) else 0)"
  by pat_completeness auto
termination
proof (relation "measure (\<lambda>x. nat \<lceil>1 / x\<rceil>)")
  show "wf (measure (\<lambda>x::real. nat \<lceil>1 / x\<rceil>))" by simp
next
  fix x :: real
  assume a: "0 < x \<and> x < 1"
  define y where "y = 1 / x"
  have y: "1 < y" using a by (simp add: y_def)
  have c: "1 < \<lceil>y\<rceil>" using y by (simp add: less_ceiling_iff)
  then have "2 \<le> real_of_int \<lceil>y\<rceil>" by linarith
  moreover have "y \<le> real_of_int \<lceil>y\<rceil>" by (rule le_of_int_ceiling)
  ultimately have "y / 2 \<le> real_of_int \<lceil>y\<rceil> - 1" by linarith
  then have "\<lceil>y / 2\<rceil> < \<lceil>y\<rceil>" by (simp only: ceiling_less_iff)
  with c have "nat \<lceil>y / 2\<rceil> < nat \<lceil>y\<rceil>" by linarith
  moreover have "1 / (x * 2) = y / 2" unfolding y_def by simp
  ultimately have "nat \<lceil>1 / (x * 2)\<rceil> < nat \<lceil>1 / x\<rceil>"
    unfolding y_def by (simp only:)
  then show "(x * 2, x) \<in> measure (\<lambda>x. nat \<lceil>1 / x\<rceil>)"
    by (simp only: in_measure)
qed

declare halvings.simps [simp del] doublings.simps [simp del]

definition binary_exponent :: "real \<Rightarrow> int" where
  "binary_exponent x = (if 1 \<le> x then int (halvings x) else - int (doublings x))"

definition pow2 :: "int \<Rightarrow> real" where
  "pow2 e = (if 0 \<le> e then 2 ^ nat e else 1 / 2 ^ nat (- e))"

text \<open>
  Rounding to the nearest binary64 value, ties to even: 53 significant bits, so the
  spacing at exponent \<open>e\<close> is \<open>2 ^ (e - 52)\<close>; below \<open>2 ^ (- 1022)\<close> the spacing
  stays that of the exponent -1022 (subnormal numbers).
\<close>

definition round_binary64 :: "real \<Rightarrow> real" where
  "round_binary64 x =
     (if x = 0 then 0
      else (let e = max (binary_exponent \<bar>x\<bar>) (- 1022);
                q = pow2 (e - 52)
            in of_int (py_round (x / q)) * q))"

text \<open>
  The largest binary64 value is \<open>2 ^ 1024 - 2 ^ 971\<close>. A real rounds beyond it
  exactly when its magnitude reaches the midpoint between that value and \<open>2 ^ 1024\<close>.
\<close>

definition overflow_threshold :: real where
  "overflow_threshold = 2 ^ 1024 - 2 ^ 970"

text \<open>The result of a float operation whose exact value is \<open>x\<close>: overflow gives an infinity.\<close>

definition to_binary64 :: "real \<Rightarrow> pyfloat" where
  "to_binary64 x =
     (if overflow_threshold \<le> x then PosInf
      else if x \<le> - overflow_threshold then NegInf
      else Finite (round_binary64 x))"

text \<open>\<^verbatim>\<open>x * y\<close> of two floats.\<close>

fun fmul :: "pyfloat \<Rightarrow> pyfloat \<Rightarrow> pyfloat" where
  "fmul NaN y = NaN"
| "fmul x NaN = NaN"
| "fmul (Finite x) (Finite y) = to_binary64 (x * y)"
| "fmul (Finite x) PosInf = (if x = 0 then NaN else if 0 < x then PosInf else NegInf)"
| "fmul (Finite x) NegInf = (if x = 0 then NaN else if 0 < x then NegInf else PosInf)"
| "fmul PosInf (Finite y) = (if y = 0 then NaN else if 0 < y then PosInf else NegInf)"
| "fmul NegInf (Finite y) = (if y = 0 then NaN else if 0 < y then NegInf else PosInf)"
| "fmul PosInf PosInf = PosInf"
| "fmul PosInf NegInf = NegInf"
| "fmul NegInf PosInf = NegInf"
| "fmul NegInf NegInf = PosInf"

text \<open>\<^verbatim>\<open>x + y\<close> of two floats.\<close>

fun fadd :: "pyfloat \<Rightarrow> pyfloat \<Rightarrow> pyfloat" where
  "fadd NaN y = NaN"
| "fadd x NaN = NaN"
| "fadd (Finite x) (Finite y) = to_binary64 (x + y)"
| "fadd (Finite x) PosInf = PosInf"
| "fadd (Finite x) NegInf = NegInf"
| "fadd PosInf (Finite y) = PosInf"
| "fadd NegInf (Finite y) = NegInf"
| "fadd PosInf PosInf = PosInf"
| "fadd PosInf NegInf = NaN"
| "fadd NegInf PosInf = NaN"
| "fadd NegInf NegInf = NegInf"

text \<open>
  \<^verbatim>\<open>x / c\<close> of a float by a positive integer literal (100 and 60 in this module):
  the literal converts exactly, and the quotient is rounded.
\<close>

fun fdiv_literal :: "pyfloat \<Rightarrow> int \<Rightarrow> pyfloat" where
  "fdiv_literal (Finite x) c = to_binary64 (x / of_int c)"
| "fdiv_literal x c = x"

text \<open>
  The conversion of an integer operand of a float operation. It is correctly rounded,
  and raises OverflowError (int too large to convert to float) when the integer rounds
  beyond the largest float.
\<close>

definition float_of_int :: "int \<Rightarrow> exn + pyfloat" where
  "float_of_int n =
     (if overflow_threshold \<le> \<bar>real_of_int n\<bar> then Inl OverflowError
      else Inr (Finite (round_binary64 (real_of_int n))))"

text \<open>
  \<^verbatim>\<open>a / b\<close> of two integers: the correctly rounded quotient, OverflowError when it
  is too large for a float.
\<close>

definition true_divide :: "int \<Rightarrow> int \<Rightarrow> exn + pyfloat" where
  "true_divide a b =
     (if b = 0 then Inl ZeroDivisionError
      else if overflow_threshold \<le> \<bar>real_of_int a / real_of_int b\<bar> then Inl OverflowError
      else Inr (Finite (round_binary64 (real_of_int a / real_of_int b))))"

text \<open>\<^verbatim>\<open>x > c\<close> of a float and an integer literal; every comparison with NaN is false.\<close>

fun float_gt :: "pyfloat \<Rightarrow> int \<Rightarrow> bool" where
  "float_gt (Finite x) c = (x > of_int c)"
| "float_gt PosInf c = True"
| "float_gt NegInf c = False"
| "float_gt NaN c = False"

text \<open>
  \<^verbatim>\<open>round(x)\<close> of a float: OverflowError on an infinity, ValueError on NaN.
\<close>

fun round_float :: "pyfloat \<Rightarrow> exn + int" where
  "round_float (Finite x) = Inr (py_round x)"
| "round_float PosInf = Inl OverflowError"
| "round_float NegInf = Inl OverflowError"
| "round_float NaN = Inl ValueError"

text \<open>
  \<^verbatim>\<open>round(x, 1)\<close> of a float: the exact value of \<open>x\<close> rounded to one decimal
  place, ties to even, and the float nearest to that decimal; an infinity and NaN are
  returned as they are.
\<close>

fun round_float1 :: "pyfloat \<Rightarrow> pyfloat" where
  "round_float1 (Finite x) = Finite (round_binary64 (of_int (py_round (x * 10)) / 10))"
| "round_float1 x = x"

section \<open>The endpoint calculate-exposure\<close>

definition breathing_rates :: "(string \<times> int) list" where
  "breathing_rates =
     [(''resting'', 8), (''light'', 15), (''moderate'', 25), (''intense'', 40)]"

text \<open>\<^verbatim>\<open>breathing_rates.get(activity, 15)\<close>\<close>

definition breathing_rate_of :: "string \<Rightarrow> int" where
  "breathing_rate_of lbl =
     (case map_of breathing_rates lbl of None \<Rightarrow> 15 | Some r \<Rightarrow> r)"

text \<open>
  \<^verbatim>\<open>exposure = aqi * duration * (breathing_rate / 15)\<close>: the product of the two
  integers is exact, the quotient is a float, and the integer product is converted for
  the float multiplication.
\<close>

definition interval_exposure :: "int \<Rightarrow> int \<Rightarrow> int \<Rightarrow> exn + pyfloat" where
  "interval_exposure a duration breathing_rate =
     (case true_divide breathing_rate 15 of
        Inl e \<Rightarrow> Inl e
      | Inr factor \<Rightarrow>
          (case float_of_int (a * duration) of
             Inl e \<Rightarrow> Inl e
           | Inr product \<Rightarrow> Inr (fmul product factor)))"

text \<open>
  The loop \<^verbatim>\<open>for i in range(len(aqi_history))\<close> over the indices still to visit,
  with the two accumulators, which start at the integer 0. It runs after the length
  check only, so every index is within the three lists. An exception leaves the loop.
\<close>

fun exposure_loop ::
  "int list \<Rightarrow> int list \<Rightarrow> string list \<Rightarrow> nat list \<Rightarrow> pyfloat \<times> pyfloat
     \<Rightarrow> exn + pyfloat \<times> pyfloat" where
  "exposure_loop aqi_history durations activity_levels [] acc = Inr acc"
| "exposure_loop aqi_history durations activity_levels (i # rest) (total_exposure, weighted) =
     (let a = aqi_history ! i;
          duration = durations ! i;
          breathing_rate = breathing_rate_of (activity_levels ! i)
      in case interval_exposure a duration breathing_rate of
           Inl e \<Rightarrow> Inl e
         | Inr exposure \<Rightarrow>
             (case true_divide a 100 of
                Inl e \<Rightarrow> Inl e
              | Inr share \<Rightarrow>
                  exposure_loop aqi_history durations activity_levels rest
                    (fadd total_exposure exposure, fadd weighted (fmul exposure share))))"

definition exposure_recommendations :: "(string \<times> string) list" where
  "exposure_recommendations =
     [(''low'', ''Your exposure is within safe limits. Continue monitoring air quality.''),
      (''moderate'', ''Consider reducing time in polluted areas. Use air purification at home.''),
      (''high'', ''Your exposure is elevated. Limit outdoor activities and use protective measures.''),
      (''very_high'', ''Serious exposure detected. Seek cleaner air environments and consult healthcare provider if experiencing symptoms.'')]"

definition get_exposure_recommendation :: "string \<Rightarrow> exn + string" where
  "get_exposure_recommendation level =
     (case map_of exposure_recommendations level of
        None \<Rightarrow> Inl (KeyError level)
      | Some r \<Rightarrow> Inr r)"

definition exposure_risk_level :: "pyfloat \<Rightarrow> string" where
  "exposure_risk_level weighted =
     (if float_gt weighted 15000 then ''very_high''
      else if float_gt weighted 10000 then ''high''
      else if float_gt weighted 5000 then ''moderate''
      else ''low'')"

record ExposureSummary =
  total_exposure_score :: int
  weighted_exposure :: int
  risk_level :: string
  equivalent_hours_at_aqi_100 :: pyfloat
  recommendation :: string

text \<open>The values of the returned dict are computed in the order of its keys.\<close>

definition calculate_exposure ::
  "int list \<Rightarrow> int list \<Rightarrow> string list \<Rightarrow> exn + ExposureSummary" where
  "calculate_exposure aqi_history durations activity_levels =
     try_except ''Exposure calculation error: ''
       (if length aqi_history \<noteq> length durations
           \<or> length aqi_history \<noteq> length activity_levels
        then Inl (HTTPException 400 (Text ''All arrays must have same length''))
        else
          (case exposure_loop aqi_history durations activity_levels
                  [0..<length aqi_history] (Finite 0, Finite 0) of
             Inl e \<Rightarrow> Inl e
           | Inr (total_exposure, weighted) \<Rightarrow>
               (let level = exposure_risk_level weighted
                in case round_float total_exposure of
                     Inl e \<Rightarrow> Inl e
                   | Inr total_score \<Rightarrow>
                       (case round_float weighted of
                          Inl e \<Rightarrow> Inl e
                        | Inr weighted_score \<Rightarrow>
                            (case get_exposure_recommendation level of
                               Inl e \<Rightarrow> Inl e
                             | Inr r \<Rightarrow>
                                 Inr \<lparr>total_exposure_score = total_score,
                                      weighted_exposure = weighted_score,
                                      risk_level = level,
                                      equivalent_hours_at_aqi_100 =
                                        round_float1
                                          (fdiv_literal (fdiv_literal weighted 100) 60),
                                      recommendation = r\<rparr>)))))"

text \<open>
  The sums that the endpoint accumulates, written without the loop: the exposure of an
  interval, its weighted exposure, and the sum of a list of floats taken from the left
  in binary64, starting at 0.
\<close>

definition exposure_term :: "int \<times> int \<times> string \<Rightarrow> pyfloat" where
  "exposure_term t =
     (case t of (a, duration, lbl) \<Rightarrow>
        fmul (to_binary64 (real_of_int (a * duration)))
             (to_binary64 (real_of_int (breathing_rate_of lbl) / 15)))"

definition weighted_term :: "int \<times> int \<times> string \<Rightarrow> pyfloat" where
  "weighted_term t =
     (case t of (a, duration, lbl) \<Rightarrow>
        fmul (exposure_term t) (to_binary64 (real_of_int a / 100)))"

definition float_sum :: "pyfloat list \<Rightarrow> pyfloat" where
  "float_sum xs = foldl fadd (Finite 0) xs"

section \<open>The endpoint suggest-activities\<close>

definition activities_by_aqi :: "((int \<times> int) \<times> string list) list" where
  "activities_by_aqi =
     [((0, 50), [''running'', ''cycling'', ''outdoor_yoga'', ''hiking'', ''sports'']),
      ((51, 100), [''walking'', ''light_jogging'', ''outdoor_dining'', ''photography'']),
      ((101, 150), [''indoor_gym'', ''mall_walking'', ''indoor_swimming'', ''shopping'']),
      ((151, 500), [''indoor_yoga'', ''home_workout'', ''reading'', ''stay_indoors''])]"

record Suggestion =
  activity :: string
  current_suitability :: string
  recommendation :: string

text \<open>
  The inner loop over the activities of the matching range: an activity is appended
  when it is among the preferences or there are no preferences.
\<close>

definition suggestions_for :: "int \<Rightarrow> string list \<Rightarrow> string list \<Rightarrow> Suggestion list" where
  "suggestions_for current_aqi user_preferences activities =
     map (\<lambda>a.
            \<lparr>activity = a,
             current_suitability = (if current_aqi < 100 then ''suitable'' else ''limited''),
             recommendation = ''Air quality is '' @ get_aqi_category current_aqi\<rparr>)
         (filter (\<lambda>a. a \<in> set user_preferences \<or> user_preferences = []) activities)"

text \<open>
  The outer loop over \<^verbatim>\<open>activities_by_aqi.items()\<close> stops (\<^verbatim>\<open>break\<close>) at
  the first range holding the current AQI.
\<close>

fun suggestions_loop ::
  "((int \<times> int) \<times> string list) list \<Rightarrow> int \<Rightarrow> string list \<Rightarrow> Suggestion list" where
  "suggestions_loop [] current_aqi user_preferences = []"
| "suggestions_loop ((aqi_range, activities) # rest) current_aqi user_preferences =
     (if fst aqi_range \<le> current_aqi \<and> current_aqi \<le> snd aqi_range
      then suggestions_for current_aqi user_preferences activities
      else suggestions_loop rest current_aqi user_preferences)"

text \<open>
  \<^verbatim>\<open>min(range(len(xs)), key=lambda i: xs[i])\<close>: the first index of a least
  element; \<^verbatim>\<open>min\<close> of an empty range raises ValueError.
\<close>

fun min_key_loop :: "int list \<Rightarrow> nat \<Rightarrow> nat list \<Rightarrow> nat" where
  "min_key_loop xs best [] = best"
| "min_key_loop xs best (i # rest) =
     min_key_loop xs (if xs ! i < xs ! best then i else best) rest"

definition min_index :: "int list \<Rightarrow> exn + nat" where
  "min_index xs =
     (case [0..<length xs] of
        [] \<Rightarrow> Inl ValueError
      | i # rest \<Rightarrow> Inr (min_key_loop xs i rest))"

record BestHour =
  hour :: nat
  aqi :: int
  message :: string

record ActivitySuggestions =
  current_aqi :: int
  suggested_activities :: "Suggestion list"
  best_time_next_6h :: BestHour

definition suggest_activities ::
  "int \<Rightarrow> int list \<Rightarrow> string list \<Rightarrow> exn + ActivitySuggestions" where
  "suggest_activities cur forecast_next_6h user_preferences =
     try_except ''Activity suggestion error: ''
       (let suggestions = suggestions_loop activities_by_aqi cur user_preferences
        in case min_index forecast_next_6h of
             Inl e \<Rightarrow> Inl e
           | Inr best_hour \<Rightarrow>
               (let best_aqi = forecast_next_6h ! best_hour
                in Inr \<lparr>current_aqi = cur,
                        suggested_activities = take 5 suggestions,
                        best_time_next_6h =
                          \<lparr>hour = best_hour,
                           aqi = best_aqi,
                           message = ''Best air quality expected in '' @ str_nat best_hour
                                       @ '' hour(s)''\<rparr>\<rparr>))"

section \<open>The endpoint pm25-to-aqi\<close>

definition breakpoints :: "(real \<times> real \<times> real \<times> real) list" where
  "breakpoints =
     [(0, 12.0, 0, 50),
      (12.1, 35.4, 51, 100),
      (35.5, 55.4, 101, 150),
      (55.5, 150.4, 151, 200),
      (150.5, 250.4, 201, 300),
      (250.5, 500.4, 301, 500)]"

record Conversion =
  pm25 :: real
  aqi :: int
  category :: string

fun convert_loop :: "(real \<times> real \<times> real \<times> real) list \<Rightarrow> real \<Rightarrow> Conversion" where
  "convert_loop [] c = \<lparr>pm25 = c, aqi = 500, category = ''hazardous''\<rparr>"
| "convert_loop ((bp_lo, bp_hi, aqi_lo, aqi_hi) # rest) c =
     (if bp_lo \<le> c \<and> c \<le> bp_hi then
        (let a = ((aqi_hi - aqi_lo) / (bp_hi - bp_lo)) * (c - bp_lo) + aqi_lo
         in \<lparr>pm25 = c, aqi = py_round a, category = get_aqi_category (py_round a)\<rparr>)
      else convert_loop rest c)"

definition convert_pm25_to_aqi :: "real \<Rightarrow> Conversion" where
  "convert_pm25_to_aqi c = convert_loop breakpoints c"

section \<open>Properties of the categorizer\<close>

lemma get_aqi_category_cases:
  "get_aqi_category a =
     (if 0 \<le> a \<and> a \<le> 50 then ''good''
      else if 51 \<le> a \<and> a \<le> 100 then ''moderate''
      else if 101 \<le> a \<and> a \<le> 150 then ''unhealthy_sensitive''
      else if 151 \<le> a \<and> a \<le> 200 then ''unhealthy''
      else if 201 \<le> a \<and> a \<le> 300 then ''very_unhealthy''
      else ''hazardous'')"
  by (simp add: AQI_CATEGORIES_def get_aqi_category_def)

lemma bands_filter:
  "0 \<le> a \<Longrightarrow> a \<le> 500 \<Longrightarrow>
   map fst (filter (\<lambda>(c, low, high). low \<le> a \<and> a \<le> high) AQI_CATEGORIES)
     = [get_aqi_category a]"
  by (simp add: AQI_CATEGORIES_def get_aqi_category_def)

text \<open>
  Claim C8. For an integer AQI from 0 to 500, the bands of the table that hold it are
  exactly one, and \<open>get_aqi_category\<close> returns the label of that band: good for 0-50,
  moderate for 51-100, unhealthy_sensitive for 101-150, unhealthy for 151-200,
  very_unhealthy for 201-300, hazardous for 301-500. For every AQI of 301 or more, and
  for every AQI above 500 or below 0, it returns hazardous; being a total function, it
  raises nothing.
\<close>

theorem get_aqi_category_bands:
  "(0 \<le> a \<and> a \<le> 500 \<longrightarrow>
      map fst (filter (\<lambda>(c, low, high). low \<le> a \<and> a \<le> high) AQI_CATEGORIES)
        = [get_aqi_category a]) \<and>
   (0 \<le> a \<and> a \<le> 50 \<longrightarrow> get_aqi_category a = ''good'') \<and>
   (51 \<le> a \<and> a \<le> 100 \<longrightarrow> get_aqi_category a = ''moderate'') \<and>
   (101 \<le> a \<and> a \<le> 150 \<longrightarrow> get_aqi_category a = ''unhealthy_sensitive'') \<and>
   (151 \<le> a \<and> a \<le> 200 \<longrightarrow> get_aqi_category a = ''unhealthy'') \<and>
   (201 \<le> a \<and> a \<le> 300 \<longrightarrow> get_aqi_category a = ''very_unhealthy'') \<and>
   (301 \<le> a \<longrightarrow> get_aqi_category a = ''hazardous'') \<and>
   (500 < a \<or> a < 0 \<longrightarrow> get_aqi_category a = ''hazardous'')"
proof -
  have one: "0 \<le> a \<and> a \<le> 500 \<longrightarrow>
      map fst (filter (\<lambda>(c, low, high). low \<le> a \<and> a \<le> high) AQI_CATEGORIES)
        = [get_aqi_category a]"
    using bands_filter by blast
  have labels: "(0 \<le> a \<and> a \<le> 50 \<longrightarrow> get_aqi_category a = ''good'') \<and>
   (51 \<le> a \<and> a \<le> 100 \<longrightarrow> get_aqi_category a = ''moderate'') \<and>
   (101 \<le> a \<and> a \<le> 150 \<longrightarrow> get_aqi_category a = ''unhealthy_sensitive'') \<and>
   (151 \<le> a \<and> a \<le> 200 \<longrightarrow> get_aqi_category a = ''unhealthy'') \<and>
   (201 \<le> a \<and> a \<le> 300 \<longrightarrow> get_aqi_category a = ''very_unhealthy'') \<and>
   (301 \<le> a \<longrightarrow> get_aqi_category a = ''hazardous'') \<and>
   (500 < a \<or> a < 0 \<longrightarrow> get_aqi_category a = ''hazardous'')"
    by (simp add: get_aqi_category_cases)
  from one labels show ?thesis by blast
qed

theorem get_aqi_category_bands_witness:
  "(0::int) \<le> 75 \<and> (75::int) \<le> 500 \<and>
   map fst (filter (\<lambda>(c, low, high). low \<le> 75 \<and> 75 \<le> high) AQI_CATEGORIES)
     = [''moderate''] \<and>
   get_aqi_category 75 = ''moderate'' \<and>
   (301::int) \<le> 742 \<and> get_aqi_category 742 = ''hazardous'' \<and>
   (- 3::int) < 0 \<and> get_aqi_category (- 3) = ''hazardous''"
  using get_aqi_category_bands [of 75] get_aqi_category_bands [of 742]
    get_aqi_category_bands [of "- 3"]
  by simp

section \<open>Properties of the safe window\<close>

text \<open>
  Claim C9. For every reading and profile, \<open>calculate_safe_window\<close> returns 240 when
  aqi < 50; 120 when 50 \<le> aqi < 100; for 100 \<le> aqi < 150, 30 if the sensitivity is
  high or very_high and 60 otherwise; for 150 \<le> aqi < 200, 30 if the sensitivity is low
  and 15 otherwise; and 0 when aqi \<ge> 200.
\<close>

theorem calculate_safe_window_table:
  "(AirQualityData.aqi aq < 50 \<longrightarrow> calculate_safe_window aq hp = 240) \<and>
   (50 \<le> AirQualityData.aqi aq \<and> AirQualityData.aqi aq < 100 \<longrightarrow>
      calculate_safe_window aq hp = 120) \<and>
   (100 \<le> AirQualityData.aqi aq \<and> AirQualityData.aqi aq < 150 \<longrightarrow>
      calculate_safe_window aq hp =
        (if sensitivity_level hp = HIGH \<or> sensitivity_level hp = VERY_HIGH then 30 else 60)) \<and>
   (150 \<le> AirQualityData.aqi aq \<and> AirQualityData.aqi aq < 200 \<longrightarrow>
      calculate_safe_window aq hp = (if sensitivity_level hp = LOW then 30 else 15)) \<and>
   (200 \<le> AirQualityData.aqi aq \<longrightarrow> calculate_safe_window aq hp = 0)"
  by (simp add: calculate_safe_window_def)

theorem calculate_safe_window_table_witness:
  "calculate_safe_window
     \<lparr>AirQualityData.pm25 = 8, pm10 = None, co2 = None, o3 = None, no2 = None,
      AirQualityData.aqi = 40, temperature = 20, humidity = 50,
      AirQualityData.timestamp = 0\<rparr>
     \<lparr>age = 30, has_asthma = False, has_copd = False, has_heart_condition = False,
      is_pregnant = False, is_child = False, is_elderly = False,
      sensitivity_level = VERY_HIGH\<rparr> = 240 \<and>
   calculate_safe_window
     \<lparr>AirQualityData.pm25 = 8, pm10 = None, co2 = None, o3 = None, no2 = None,
      AirQualityData.aqi = 120, temperature = 20, humidity = 50,
      AirQualityData.timestamp = 0\<rparr>
     \<lparr>age = 30, has_asthma = False, has_copd = False, has_heart_condition = False,
      is_pregnant = False, is_child = False, is_elderly = False,
      sensitivity_level = HIGH\<rparr> = 30 \<and>
   calculate_safe_window
     \<lparr>AirQualityData.pm25 = 8, pm10 = None, co2 = None, o3 = None, no2 = None,
      AirQualityData.aqi = 180, temperature = 20, humidity = 50,
      AirQualityData.timestamp = 0\<rparr>
     \<lparr>age = 30, has_asthma = False, has_copd = False, has_heart_condition = False,
      is_pregnant = False, is_child = False, is_elderly = False,
      sensitivity_level = LOW\<rparr> = 30 \<and>
   calculate_safe_window
     \<lparr>AirQualityData.pm25 = 8, pm10 = None, co2 = None, o3 = None, no2 = None,
      AirQualityData.aqi = 250, temperature = 20, humidity = 50,
      AirQualityData.timestamp = 0\<rparr>
     \<lparr>age = 30, has_asthma = False, has_copd = False, has_heart_condition = False,
      is_pregnant = False, is_child = False, is_elderly = False,
      sensitivity_level = MODERATE\<rparr> = 0"
  using
    calculate_safe_window_table
      [of "\<lparr>AirQualityData.pm25 = 8, pm10 = None, co2 = None, o3 = None, no2 = None,
            AirQualityData.aqi = 40, temperature = 20, humidity = 50,
            AirQualityData.timestamp = 0\<rparr>"
          "\<lparr>age = 30, has_asthma = False, has_copd = False, has_heart_condition = False,
            is_pregnant = False, is_child = False, is_elderly = False,
            sensitivity_level = VERY_HIGH\<rparr>"]
    calculate_safe_window_table
      [of "\<lparr>AirQualityData.pm25 = 8, pm10 = None, co2 = None, o3 = None, no2 = None,
            AirQualityData.aqi = 120, temperature = 20, humidity = 50,
            AirQualityData.timestamp = 0\<rparr>"
          "\<lparr>age = 30, has_asthma = False, has_copd = False, has_heart_condition = False,
            is_pregnant = False, is_child = False, is_elderly = False,
            sensitivity_level = HIGH\<rparr>"]
    calculate_safe_window_table
      [of "\<lparr>AirQualityData.pm25 = 8, pm10 = None, co2 = None, o3 = None, no2 = None,
            AirQualityData.aqi = 180, temperature = 20, humidity = 50,
            AirQualityData.timestamp = 0\<rparr>"
          "\<lparr>age = 30, has_asthma = False, has_copd = False, has_heart_condition = False,
            is_pregnant = False, is_child = False, is_elderly = False,
            sensitivity_level = LOW\<rparr>"]
    calculate_safe_window_table
      [of "\<lparr>AirQualityData.pm25 = 8, pm10 = None, co2 = None, o3 = None, no2 = None,
            AirQualityData.aqi = 250, temperature = 20, humidity = 50,
            AirQualityData.timestamp = 0\<rparr>"
          "\<lparr>age = 30, has_asthma = False, has_copd = False, has_heart_condition = False,
            is_pregnant = False, is_child = False, is_elderly = False,
            sensitivity_level = MODERATE\<rparr>"]
  by simp

section \<open>Properties of the PM2.5 converter\<close>

lemma convert_loop_unmatched:
  "\<forall>b \<in> set bps. \<not> (fst b \<le> c \<and> c \<le> fst (snd b)) \<Longrightarrow>
   convert_loop bps c = \<lparr>pm25 = c, aqi = 500, category = ''hazardous''\<rparr>"
  by (induction bps c rule: convert_loop.induct) auto

lemma outside_breakpoints:
  "500.4 < c \<or> (12 < c \<and> c < 12.1) \<or> c < 0 \<Longrightarrow>
   \<forall>b \<in> set breakpoints. \<not> (fst b \<le> c \<and> c \<le> fst (snd b))"
  by (auto simp add: breakpoints_def)

text \<open>
  Claim C5. \<open>convert_pm25_to_aqi\<close> returns aqi 50 for pm25 = 12.0 and aqi 0 for
  pm25 = 0. For every pm25 that no breakpoint tuple matches (its concentration range
  taken with both ends), in particular for pm25 > 500.4, for pm25 in a gap such as
  12.0 < pm25 < 12.1 and for a negative pm25, it returns aqi 500 with the category
  hazardous; the function is total, so nothing is raised.
\<close>

theorem convert_pm25_to_aqi_points:
  "Conversion.aqi (convert_pm25_to_aqi 12.0) = 50 \<and>
   Conversion.aqi (convert_pm25_to_aqi 0) = 0 \<and>
   ((\<forall>b \<in> set breakpoints. \<not> (fst b \<le> c \<and> c \<le> fst (snd b))) \<longrightarrow>
      convert_pm25_to_aqi c = \<lparr>pm25 = c, aqi = 500, category = ''hazardous''\<rparr>) \<and>
   (500.4 < c \<or> (12.0 < c \<and> c < 12.1) \<or> c < 0 \<longrightarrow>
      convert_pm25_to_aqi c = \<lparr>pm25 = c, aqi = 500, category = ''hazardous''\<rparr>)"
proof -
  have at12: "Conversion.aqi (convert_pm25_to_aqi 12.0) = 50"
    by (simp add: convert_pm25_to_aqi_def breakpoints_def py_round_def Let_def)
  have at0: "Conversion.aqi (convert_pm25_to_aqi 0) = 0"
    by (simp add: convert_pm25_to_aqi_def breakpoints_def py_round_def Let_def)
  have unmatched: "(\<forall>b \<in> set breakpoints. \<not> (fst b \<le> c \<and> c \<le> fst (snd b))) \<longrightarrow>
      convert_pm25_to_aqi c = \<lparr>pm25 = c, aqi = 500, category = ''hazardous''\<rparr>"
    unfolding convert_pm25_to_aqi_def using convert_loop_unmatched by blast
  have outside: "500.4 < c \<or> (12.0 < c \<and> c < 12.1) \<or> c < 0 \<longrightarrow>
      convert_pm25_to_aqi c = \<lparr>pm25 = c, aqi = 500, category = ''hazardous''\<rparr>"
  proof
    assume "500.4 < c \<or> (12.0 < c \<and> c < 12.1) \<or> c < 0"
    then have "\<forall>b \<in> set breakpoints. \<not> (fst b \<le> c \<and> c \<le> fst (snd b))"
      using outside_breakpoints [of c] by simp
    with unmatched show "convert_pm25_to_aqi c = \<lparr>pm25 = c, aqi = 500, category = ''hazardous''\<rparr>"
      by blast
  qed
  from at12 at0 unmatched outside show ?thesis by blast
qed

theorem convert_pm25_to_aqi_points_witness:
  "(500.4::real) < 600 \<and>
   convert_pm25_to_aqi 600 = \<lparr>pm25 = 600, aqi = 500, category = ''hazardous''\<rparr> \<and>
   (12.0::real) < 12.05 \<and> (12.05::real) < 12.1 \<and>
   convert_pm25_to_aqi 12.05 = \<lparr>pm25 = 12.05, aqi = 500, category = ''hazardous''\<rparr> \<and>
   (- 1::real) < 0 \<and>
   convert_pm25_to_aqi (- 1) = \<lparr>pm25 = - 1, aqi = 500, category = ''hazardous''\<rparr>"
  using convert_pm25_to_aqi_points [of 600] convert_pm25_to_aqi_points [of "12.05"]
    convert_pm25_to_aqi_points [of "- 1"]
  by simp

section \<open>Properties of the health risk score\<close>

lemma activity_multipliers_pos: "0 < activity_multipliers act"
  by (cases act) simp_all

lemma sensitivity_multipliers_pos: "0 < sensitivity_multipliers s"
  by (cases s) simp_all

lemma baseline_nonneg:
  fixes a p :: real
  assumes "0 \<le> a"
  shows "0 \<le> (if p \<noteq> 0 then max a (min (p / 2) 100) else a)"
  using assms by (simp add: le_max_iff_disj)

lemma baseline_mono_aqi:
  fixes a1 a2 p :: real
  assumes "a1 \<le> a2"
  shows "(if p \<noteq> 0 then max a1 (min (p / 2) 100) else a1)
       \<le> (if p \<noteq> 0 then max a2 (min (p / 2) 100) else a2)"
  using assms by (cases "p = 0") (auto simp: max_def min_def)

lemma baseline_mono_pm25:
  fixes a p1 p2 :: real
  assumes "p1 \<le> p2" and "0 \<le> a \<or> 0 \<le> p1 \<or> p2 \<noteq> 0"
  shows "(if p1 \<noteq> 0 then max a (min (p1 / 2) 100) else a)
       \<le> (if p2 \<noteq> 0 then max a (min (p2 / 2) 100) else a)"
  using assms by (cases "p1 = 0"; cases "p2 = 0") (auto simp: max_def min_def)

lemma scaled_clamp_mono:
  fixes x y k :: real
  assumes "x \<le> y" and "0 < k"
  shows "min (x * k) 100 \<le> min (y * k) 100"
proof -
  from assms have "x * k \<le> y * k" by (simp add: mult_right_mono)
  then show ?thesis by (rule min.mono) simp
qed

lemma score_factor:
  "\<exists>k>0. \<forall>aq. calculate_health_risk_score aq hp act =
      min ((if AirQualityData.pm25 aq \<noteq> 0
            then max (real_of_int (AirQualityData.aqi aq) / 5) (min (AirQualityData.pm25 aq / 2) 100)
            else real_of_int (AirQualityData.aqi aq) / 5) * k) 100"
proof -
  let ?k = "activity_multipliers act * sensitivity_multipliers (sensitivity_level hp)
      * (if has_asthma hp \<or> has_copd hp then 1.5 else 1)
      * (if has_heart_condition hp then 1.3 else 1)
      * (if is_child hp \<or> is_elderly hp then 1.2 else 1)
      * (if is_pregnant hp then 1.3 else 1)
      * (if age hp < 12 then 1.2 else if age hp > 65 then 1.3 else 1)"
  have pos: "0 < ?k"
    using activity_multipliers_pos [of act] sensitivity_multipliers_pos [of "sensitivity_level hp"]
    by (intro mult_pos_pos) simp_all
  have eq: "calculate_health_risk_score aq hp act =
      min ((if AirQualityData.pm25 aq \<noteq> 0
            then max (real_of_int (AirQualityData.aqi aq) / 5) (min (AirQualityData.pm25 aq / 2) 100)
            else real_of_int (AirQualityData.aqi aq) / 5) * ?k) 100" for aq
    unfolding calculate_health_risk_score_def Let_def
    by (simp only: if_distrib [of "\<lambda>x. _ * x"] if_distrib [of "\<lambda>x. x * _"]
          mult.assoc mult_1_right mult_1_left cong: if_cong)
  show ?thesis
    by (rule exI [of _ ?k]) (use pos eq in blast)
qed

text \<open>
  For a reading whose aqi is not negative the score lies between 0 and 100.
\<close>

lemma risk_score_range:
  assumes "0 \<le> AirQualityData.aqi aq"
  shows "0 \<le> calculate_health_risk_score aq hp act \<and>
         calculate_health_risk_score aq hp act \<le> 100"
proof -
  obtain k where k: "0 < k" and eq: "\<And>aq. calculate_health_risk_score aq hp act =
      min ((if AirQualityData.pm25 aq \<noteq> 0
            then max (real_of_int (AirQualityData.aqi aq) / 5) (min (AirQualityData.pm25 aq / 2) 100)
            else real_of_int (AirQualityData.aqi aq) / 5) * k) 100"
    using score_factor [of hp act] by blast
  have "0 \<le> real_of_int (AirQualityData.aqi aq) / 5" using assms by simp
  then have "0 \<le> (if AirQualityData.pm25 aq \<noteq> 0
            then max (real_of_int (AirQualityData.aqi aq) / 5) (min (AirQualityData.pm25 aq / 2) 100)
            else real_of_int (AirQualityData.aqi aq) / 5)"
    by (rule baseline_nonneg)
  then have "0 \<le> (if AirQualityData.pm25 aq \<noteq> 0
            then max (real_of_int (AirQualityData.aqi aq) / 5) (min (AirQualityData.pm25 aq / 2) 100)
            else real_of_int (AirQualityData.aqi aq) / 5) * k"
    using k by (intro mult_nonneg_nonneg) simp_all
  then show ?thesis unfolding eq by simp
qed

text \<open>
  Claim C3. The claim is that for every reading, profile and activity the score lies in
  the closed interval from 0 to 100. The upper bound holds; the lower one does not: the
  reading with aqi = -5 and pm25 = 0, a profile of age 30 with the moderate sensitivity
  and no condition, and the resting activity give the score -1.
\<close>

theorem risk_score_negative_aqi:
  "calculate_health_risk_score
     \<lparr>AirQualityData.pm25 = 0, pm10 = None, co2 = None, o3 = None, no2 = None,
      AirQualityData.aqi = - 5, temperature = 20, humidity = 50,
      AirQualityData.timestamp = 0\<rparr>
     \<lparr>age = 30, has_asthma = False, has_copd = False, has_heart_condition = False,
      is_pregnant = False, is_child = False, is_elderly = False,
      sensitivity_level = MODERATE\<rparr>
     RESTING = - 1"
  by (simp add: calculate_health_risk_score_def)

lemma risk_score_mono_aqi:
  assumes "AirQualityData.aqi aq \<le> a2"
  shows "calculate_health_risk_score aq hp act
       \<le> calculate_health_risk_score (aq\<lparr>AirQualityData.aqi := a2\<rparr>) hp act"
proof -
  obtain k where k: "0 < k" and eq: "\<And>aq. calculate_health_risk_score aq hp act =
      min ((if AirQualityData.pm25 aq \<noteq> 0
            then max (real_of_int (AirQualityData.aqi aq) / 5) (min (AirQualityData.pm25 aq / 2) 100)
            else real_of_int (AirQualityData.aqi aq) / 5) * k) 100"
    using score_factor [of hp act] by blast
  have e2: "calculate_health_risk_score (aq\<lparr>AirQualityData.aqi := a2\<rparr>) hp act =
      min ((if AirQualityData.pm25 aq \<noteq> 0
            then max (real_of_int a2 / 5) (min (AirQualityData.pm25 aq / 2) 100)
            else real_of_int a2 / 5) * k) 100"
    using eq [of "aq\<lparr>AirQualityData.aqi := a2\<rparr>"] by simp
  have "real_of_int (AirQualityData.aqi aq) / 5 \<le> real_of_int a2 / 5" using assms by simp
  then have "(if AirQualityData.pm25 aq \<noteq> 0
            then max (real_of_int (AirQualityData.aqi aq) / 5) (min (AirQualityData.pm25 aq / 2) 100)
            else real_of_int (AirQualityData.aqi aq) / 5)
       \<le> (if AirQualityData.pm25 aq \<noteq> 0
            then max (real_of_int a2 / 5) (min (AirQualityData.pm25 aq / 2) 100)
            else real_of_int a2 / 5)"
    by (rule baseline_mono_aqi)
  then show ?thesis
    unfolding e2 eq [of aq] using k by (rule scaled_clamp_mono)
qed

text \<open>
  With the profile, the activity and the other fields of the reading fixed, the score
  is non-decreasing in aqi, and for a reading whose aqi is not negative it is
  non-decreasing in pm25.
\<close>

lemma risk_score_mono_pm25:
  assumes "AirQualityData.pm25 aq \<le> p2" and "0 \<le> AirQualityData.aqi aq"
  shows "calculate_health_risk_score aq hp act
       \<le> calculate_health_risk_score (aq\<lparr>AirQualityData.pm25 := p2\<rparr>) hp act"
proof -
  obtain k where k: "0 < k" and eq: "\<And>aq. calculate_health_risk_score aq hp act =
      min ((if AirQualityData.pm25 aq \<noteq> 0
            then max (real_of_int (AirQualityData.aqi aq) / 5) (min (AirQualityData.pm25 aq / 2) 100)
            else real_of_int (AirQualityData.aqi aq) / 5) * k) 100"
    using score_factor [of hp act] by blast
  have e2: "calculate_health_risk_score (aq\<lparr>AirQualityData.pm25 := p2\<rparr>) hp act =
      min ((if p2 \<noteq> 0
            then max (real_of_int (AirQualityData.aqi aq) / 5) (min (p2 / 2) 100)
            else real_of_int (AirQualityData.aqi aq) / 5) * k) 100"
    using eq [of "aq\<lparr>AirQualityData.pm25 := p2\<rparr>"] by simp
  have "0 \<le> real_of_int (AirQualityData.aqi aq) / 5 \<or> 0 \<le> AirQualityData.pm25 aq \<or> p2 \<noteq> 0"
    using assms(2) by simp
  with assms(1) have "(if AirQualityData.pm25 aq \<noteq> 0
            then max (real_of_int (AirQualityData.aqi aq) / 5) (min (AirQualityData.pm25 aq / 2) 100)
            else real_of_int (AirQualityData.aqi aq) / 5)
       \<le> (if p2 \<noteq> 0
            then max (real_of_int (AirQualityData.aqi aq) / 5) (min (p2 / 2) 100)
            else real_of_int (AirQualityData.aqi aq) / 5)"
    by (rule baseline_mono_pm25)
  then show ?thesis
    unfolding e2 eq [of aq] using k by (rule scaled_clamp_mono)
qed

text \<open>
  Claim C4. The claim is that, with the profile, the activity and the other fields of
  the reading fixed, the score is non-decreasing in aqi and non-decreasing in pm25. At
  a negative aqi the code is not: with aqi = -10, raising pm25 from -1 to 0 lowers the
  score from -1/2 to -2. A pm25 of exactly 0 is false in
  \<^verbatim>\<open>if air_quality.pm25:\<close>, so the baseline falls back from max(aqi/5, pm25/2)
  to aqi/5, and neither score is raised to 0, the lower end of the range 0-100 that the
  docstring gives.
\<close>

theorem risk_score_pm25_decrease:
  "(- 1::real) \<le> 0 \<and>
   calculate_health_risk_score
     \<lparr>AirQualityData.pm25 = - 1, pm10 = None, co2 = None, o3 = None, no2 = None,
      AirQualityData.aqi = - 10, temperature = 20, humidity = 50,
      AirQualityData.timestamp = 0\<rparr>
     \<lparr>age = 30, has_asthma = False, has_copd = False, has_heart_condition = False,
      is_pregnant = False, is_child = False, is_elderly = False,
      sensitivity_level = MODERATE\<rparr>
     RESTING = - 1 / 2 \<and>
   calculate_health_risk_score
     \<lparr>AirQualityData.pm25 = 0, pm10 = None, co2 = None, o3 = None, no2 = None,
      AirQualityData.aqi = - 10, temperature = 20, humidity = 50,
      AirQualityData.timestamp = 0\<rparr>
     \<lparr>age = 30, has_asthma = False, has_copd = False, has_heart_condition = False,
      is_pregnant = False, is_child = False, is_elderly = False,
      sensitivity_level = MODERATE\<rparr>
     RESTING = - 2"
  by (simp add: calculate_health_risk_score_def)

section \<open>Properties of the analysis endpoint\<close>










section \<open>Properties of the activity suggestions\<close>

lemma min_index_nonempty: "xs \<noteq> [] \<Longrightarrow> \<exists>i. min_index xs = Inr i"
  by (cases xs) (simp_all add: min_index_def upt_conv_Cons del: upt_Suc)

text \<open>With at least one forecast value the endpoint returns a result.\<close>

lemma suggest_activities_nonempty:
  "xs \<noteq> [] \<Longrightarrow> \<exists>r. suggest_activities cur xs prefs = Inr r"
  using min_index_nonempty [of xs]
  by (auto simp add: suggest_activities_def try_except_def Let_def)

text \<open>
  Claim C2. The claim is that every core operation returns normally on well-typed
  input, and in particular that \<open>suggest_activities\<close> returns a result for every
  current AQI, every list of forecast values, the empty list included, and every list
  of preferences. On the empty forecast list the code does not return: \<^verbatim>\<open>min\<close> of
  the empty range raises ValueError, which the handler of the endpoint turns into an
  HTTPException with the status 500, whatever the current AQI and the preferences.
\<close>

theorem suggest_activities_empty_forecast:
  "suggest_activities cur [] prefs =
     Inl (HTTPException 500 (Prefixed ''Activity suggestion error: '' ValueError))"
  by (simp add: suggest_activities_def min_index_def try_except_def)

section \<open>Properties of the forecaster\<close>

lemma aqi_values_of_replicate:
  "r ''aqi'' = Some v \<Longrightarrow> aqi_values_of (replicate n r) = Inr (replicate n v)"
  by (induction n) simp_all

lemma np_mean_replicate: "0 < n \<Longrightarrow> np_mean (replicate n v) = v"
  by (simp add: np_mean_def sum_list_replicate)

lemma last_n_all: "length xs \<le> n \<Longrightarrow> last_n n xs = xs"
  by (simp add: last_n_def)

lemma hour_of_add: "hour_of (t + h * 3600000000) = (hour_of t + h) mod 24"
  by (simp add: hour_of_def add.commute mod_add_right_eq)

lemma forecast_aqi_insufficient:
  "length (historical_data req) < 24 \<Longrightarrow>
   forecast_aqi req now = Inr (ErrorDict ''Need at least 24 hours of historical data'')"
  by (simp add: forecast_aqi_def try_except_def)

lemma clamp_pattern_80:
  "max 0 (min 500 (time_of_day_pattern h 80)) = time_of_day_pattern h 80"
  by (simp add: time_of_day_pattern_def)

lemma category_pattern_80: "get_aqi_category (py_int (time_of_day_pattern h 80)) = ''moderate''"
  by (simp add: time_of_day_pattern_def py_int_def get_aqi_category_cases)

lemma forecast_entry_80:
  assumes "now + h * 3600000000 \<le> datetime_max"
  shows "forecast_entry now 80 0 h =
     Inr \<lparr>timestamp = now + h * 3600000000,
          predicted_aqi = py_round (time_of_day_pattern (hour_of (now + h * 3600000000)) 80),
          category = ''moderate'', confidence = ''medium''\<rparr>"
  using assms by (simp add: forecast_entry_def add_hours_def Let_def clamp_pattern_80 category_pattern_80)

lemma forecast_loop_80:
  "\<forall>h \<in> set hs. now + h * 3600000000 \<le> datetime_max \<Longrightarrow>
   forecast_loop now 80 0 hs =
     Inr (map (\<lambda>h. \<lparr>timestamp = now + h * 3600000000,
                 predicted_aqi = py_round (time_of_day_pattern (hour_of (now + h * 3600000000)) 80),
                 category = ''moderate'', confidence = ''medium''\<rparr>) hs)"
  by (induction hs) (simp_all add: forecast_entry_80)

lemma pattern_as_multiplier:
  "time_of_day_pattern h p =
     p * (if (7 \<le> h \<and> h \<le> 9) \<or> (17 \<le> h \<and> h \<le> 19) then 1.15
          else if 2 \<le> h \<and> h \<le> 5 then 0.90 else 1.0)"
  by (simp add: time_of_day_pattern_def)

lemma forecast_aqi_stable:
  assumes "24 \<le> length (historical_data req)"
    and "aqi_values_of (last_n 168 (historical_data req)) = Inr vs"
    and "length vs < 48"
    and "forecast_loop now (np_mean (last_n 24 vs)) 0 [0..<nat (hours_ahead req)] = Inr fs"
  shows "forecast_aqi req now =
     Inr (ForecastDict
       \<lparr>location = ForecastRequest.location req, forecast_generated_at = now,
        forecasts = fs, trend = ''stable'',
        best_activity_times = find_best_activity_times fs\<rparr>)"
  using assms by (simp add: forecast_aqi_def try_except_def Let_def)

lemma forecast_identical_80:
  assumes r: "r ''aqi'' = Some 80"
    and clock: "\<forall>h \<in> set [0..<n]. now + h * 3600000000 \<le> datetime_max"
  shows "forecast_aqi \<lparr>historical_data = replicate 24 r, location = loc, hours_ahead = int n\<rparr> now =
     Inr (ForecastDict
       \<lparr>location = loc, forecast_generated_at = now,
        forecasts = map (\<lambda>h. \<lparr>timestamp = now + h * 3600000000,
                 predicted_aqi = py_round (time_of_day_pattern (hour_of (now + h * 3600000000)) 80),
                 category = ''moderate'', confidence = ''medium''\<rparr>) [0..<n],
        trend = ''stable'',
        best_activity_times = find_best_activity_times (map (\<lambda>h. \<lparr>timestamp = now + h * 3600000000,
                 predicted_aqi = py_round (time_of_day_pattern (hour_of (now + h * 3600000000)) 80),
                 category = ''moderate'', confidence = ''medium''\<rparr>) [0..<n])\<rparr>)"
proof -
  let ?req = "\<lparr>historical_data = replicate 24 r, location = loc, hours_ahead = int n\<rparr>"
  let ?fs = "map (\<lambda>h. \<lparr>timestamp = now + h * 3600000000,
                 predicted_aqi = py_round (time_of_day_pattern (hour_of (now + h * 3600000000)) 80),
                 category = ''moderate'', confidence = ''medium''\<rparr>) [0..<n]"
  have len: "24 \<le> length (historical_data ?req)"
    by simp
  have vals: "aqi_values_of (last_n 168 (historical_data ?req)) = Inr (replicate 24 80)"
    using r by (simp add: last_n_all aqi_values_of_replicate)
  have short: "length (replicate 24 (80::real)) < 48"
    by simp
  have m24: "np_mean (last_n 24 (replicate 24 (80::real))) = 80"
    by (simp add: last_n_all np_mean_replicate)
  have hs: "[0..<nat (hours_ahead ?req)] = [0..<n]"
    by simp
  from clock have "forecast_loop now 80 0 [0..<n] = Inr ?fs"
    by (rule forecast_loop_80)
  then have loop: "forecast_loop now (np_mean (last_n 24 (replicate 24 80))) 0
      [0..<nat (hours_ahead ?req)] = Inr ?fs"
    unfolding m24 hs .
  from forecast_aqi_stable [OF len vals short loop] show ?thesis
    by simp
qed

text \<open>
  Claim C6. For every history of fewer than 24 readings \<open>forecast_aqi\<close> returns the
  error dict (a normal return, no exception is raised). For a history of exactly 24
  identical readings with aqi = 80 and hours_ahead = 3 it succeeds, provided the clock
  reading is at least two hours before the largest datetime, and returns exactly the
  three points of the hours 0, 1 and 2 ahead, whose predicted_aqi is 80 times the
  multiplier of the projected hour of day (1.15 in [7,9] and [17,19], 0.90 in [2,5],
  1.0 otherwise), rounded; the trend is 0, so its label is stable.
\<close>

theorem forecast_aqi_history:
  "(length (historical_data req) < 24 \<longrightarrow>
      forecast_aqi req now = Inr (ErrorDict ''Need at least 24 hours of historical data'')) \<and>
   (r ''aqi'' = Some 80 \<and> now + 2 * 3600000000 \<le> datetime_max \<longrightarrow>
      (\<exists>fc. forecast_aqi
              \<lparr>historical_data = replicate 24 r, location = loc, hours_ahead = 3\<rparr> now
              = Inr (ForecastDict fc) \<and>
            trend fc = ''stable'' \<and>
            forecasts fc =
              map (\<lambda>h. \<lparr>timestamp = now + h * 3600000000,
                        predicted_aqi =
                          py_round (80 *
                            (let hour_of_day = hour_of (now + h * 3600000000)
                             in if (7 \<le> hour_of_day \<and> hour_of_day \<le> 9)
                                   \<or> (17 \<le> hour_of_day \<and> hour_of_day \<le> 19) then 1.15
                                else if 2 \<le> hour_of_day \<and> hour_of_day \<le> 5 then 0.90
                                else 1.0)),
                        category = ''moderate'', confidence = ''medium''\<rparr>)
                  [0, 1, 2]))"
proof (intro conjI impI)
  assume "length (historical_data req) < 24"
  then show "forecast_aqi req now = Inr (ErrorDict ''Need at least 24 hours of historical data'')"
    by (rule forecast_aqi_insufficient)
next
  assume a: "r ''aqi'' = Some 80 \<and> now + 2 * 3600000000 \<le> datetime_max"
  then have "\<forall>h \<in> set [0..<3]. now + h * 3600000000 \<le> datetime_max"
    by (simp add: upt_rec)
  with a have "forecast_aqi
       \<lparr>historical_data = replicate 24 r, location = loc, hours_ahead = int 3\<rparr> now =
     Inr (ForecastDict
       \<lparr>location = loc, forecast_generated_at = now,
        forecasts = map (\<lambda>h. \<lparr>timestamp = now + h * 3600000000,
                 predicted_aqi = py_round (time_of_day_pattern (hour_of (now + h * 3600000000)) 80),
                 category = ''moderate'', confidence = ''medium''\<rparr>) [0..<3],
        trend = ''stable'',
        best_activity_times = find_best_activity_times (map (\<lambda>h. \<lparr>timestamp = now + h * 3600000000,
                 predicted_aqi = py_round (time_of_day_pattern (hour_of (now + h * 3600000000)) 80),
                 category = ''moderate'', confidence = ''medium''\<rparr>) [0..<3])\<rparr>)"
    by (intro forecast_identical_80) simp_all
  then show "\<exists>fc. forecast_aqi
              \<lparr>historical_data = replicate 24 r, location = loc, hours_ahead = 3\<rparr> now
              = Inr (ForecastDict fc) \<and>
            trend fc = ''stable'' \<and>
            forecasts fc =
              map (\<lambda>h. \<lparr>timestamp = now + h * 3600000000,
                        predicted_aqi =
                          py_round (80 *
                            (let hour_of_day = hour_of (now + h * 3600000000)
                             in if (7 \<le> hour_of_day \<and> hour_of_day \<le> 9)
                                   \<or> (17 \<le> hour_of_day \<and> hour_of_day \<le> 19) then 1.15
                                else if 2 \<le> hour_of_day \<and> hour_of_day \<le> 5 then 0.90
                                else 1.0)),
                        category = ''moderate'', confidence = ''medium''\<rparr>)
                  [0, 1, 2]"
    by (simp add: upt_rec pattern_as_multiplier Let_def)
qed

theorem forecast_aqi_history_witness:
  "length (historical_data \<lparr>historical_data = replicate 23 [''aqi'' \<mapsto> 80], location = Map.empty, hours_ahead = 3\<rparr>) < 24 \<and>
   forecast_aqi \<lparr>historical_data = replicate 23 [''aqi'' \<mapsto> 80], location = Map.empty, hours_ahead = 3\<rparr>
       63839682000000000
     = Inr (ErrorDict ''Need at least 24 hours of historical data'') \<and>
   [''aqi'' \<mapsto> 80::real] ''aqi'' = Some 80 \<and>
   63839682000000000 + 2 * 3600000000 \<le> datetime_max \<and>
   (case forecast_aqi \<lparr>historical_data = replicate 24 [''aqi'' \<mapsto> 80], location = Map.empty, hours_ahead = 3\<rparr>
       63839682000000000 of
      Inr (ForecastDict fc) \<Rightarrow>
        trend fc = ''stable'' \<and>
        forecasts fc =
          [\<lparr>timestamp = 63839682000000000, predicted_aqi = 72, category = ''moderate'', confidence = ''medium''\<rparr>,
           \<lparr>timestamp = 63839685600000000, predicted_aqi = 80, category = ''moderate'', confidence = ''medium''\<rparr>,
           \<lparr>timestamp = 63839689200000000, predicted_aqi = 92, category = ''moderate'', confidence = ''medium''\<rparr>]
    | _ \<Rightarrow> False)"
  using
    forecast_aqi_history
      [of "\<lparr>historical_data = replicate 23 [''aqi'' \<mapsto> 80], location = Map.empty, hours_ahead = 3\<rparr>"
          63839682000000000 "[''aqi'' \<mapsto> 80]" Map.empty]
  by (auto simp add: hour_of_def py_round_def datetime_max_def)

lemma forecast_loop_Inr:
  "forecast_loop now ma tr hs = Inr fs \<Longrightarrow>
   fs = map (\<lambda>h. \<lparr>timestamp = now + h * 3600000000,
        predicted_aqi = py_round (max 0 (min 500
           (time_of_day_pattern ((hour_of now + h) mod 24) (ma + tr * real h / 24)))),
        category = get_aqi_category (py_int (max 0 (min 500
           (time_of_day_pattern ((hour_of now + h) mod 24) (ma + tr * real h / 24))))),
        confidence = ''medium''\<rparr>) hs"
proof (induction hs arbitrary: fs)
  case Nil
  then show ?case by simp
next
  case (Cons h hs)
  then show ?case
    by (auto simp add: forecast_entry_def add_hours_def Let_def hour_of_add
        split: if_splits sum.splits)
qed

lemma forecast_aqi_ForecastDict:
  assumes "forecast_aqi req now = Inr (ForecastDict f)"
  shows "\<exists>ma tr. (\<forall>t f'. forecast_aqi req t = Inr (ForecastDict f') \<longrightarrow>
      f' = \<lparr>location = ForecastRequest.location req, forecast_generated_at = t,
        forecasts = map (\<lambda>h. \<lparr>timestamp = t + h * 3600000000,
          predicted_aqi = py_round (max 0 (min 500
             (time_of_day_pattern ((hour_of t + h) mod 24) (ma + tr * real h / 24)))),
          category = get_aqi_category (py_int (max 0 (min 500
             (time_of_day_pattern ((hour_of t + h) mod 24) (ma + tr * real h / 24))))),
          confidence = ''medium''\<rparr>) [0..<nat (hours_ahead req)],
        trend = (if tr < - 5 then ''improving'' else if tr > 5 then ''worsening'' else ''stable''),
        best_activity_times = find_best_activity_times (map (\<lambda>h. \<lparr>timestamp = t + h * 3600000000,
          predicted_aqi = py_round (max 0 (min 500
             (time_of_day_pattern ((hour_of t + h) mod 24) (ma + tr * real h / 24)))),
          category = get_aqi_category (py_int (max 0 (min 500
             (time_of_day_pattern ((hour_of t + h) mod 24) (ma + tr * real h / 24))))),
          confidence = ''medium''\<rparr>) [0..<nat (hours_ahead req)])\<rparr>)"
proof -
  from assms obtain vs where vs: "aqi_values_of (last_n 168 (historical_data req)) = Inr vs"
    by (auto simp add: forecast_aqi_def try_except_def split: if_splits sum.splits)
  define ma where "ma = np_mean (last_n 24 vs)"
  define tr where "tr = ma - (if length vs \<ge> 48 then np_mean (last_n 48 vs) else ma)"
  show ?thesis
  proof (rule exI [of _ ma], rule exI [of _ tr], intro allI impI)
    fix t f'
    assume a: "forecast_aqi req t = Inr (ForecastDict f')"
    then obtain fs where fs: "forecast_loop t ma tr [0..<nat (hours_ahead req)] = Inr fs"
      and f': "f' = \<lparr>location = ForecastRequest.location req, forecast_generated_at = t,
         forecasts = fs,
         trend = (if tr < - 5 then ''improving'' else if tr > 5 then ''worsening'' else ''stable''),
         best_activity_times = find_best_activity_times fs\<rparr>"
      using vs unfolding forecast_aqi_def try_except_def Let_def ma_def tr_def
      by (auto split: if_splits sum.splits)
    from forecast_loop_Inr [OF fs] f'
    show "f' = \<lparr>location = ForecastRequest.location req, forecast_generated_at = t,
        forecasts = map (\<lambda>h. \<lparr>timestamp = t + h * 3600000000,
          predicted_aqi = py_round (max 0 (min 500
             (time_of_day_pattern ((hour_of t + h) mod 24) (ma + tr * real h / 24)))),
          category = get_aqi_category (py_int (max 0 (min 500
             (time_of_day_pattern ((hour_of t + h) mod 24) (ma + tr * real h / 24))))),
          confidence = ''medium''\<rparr>) [0..<nat (hours_ahead req)],
        trend = (if tr < - 5 then ''improving'' else if tr > 5 then ''worsening'' else ''stable''),
        best_activity_times = find_best_activity_times (map (\<lambda>h. \<lparr>timestamp = t + h * 3600000000,
          predicted_aqi = py_round (max 0 (min 500
             (time_of_day_pattern ((hour_of t + h) mod 24) (ma + tr * real h / 24)))),
          category = get_aqi_category (py_int (max 0 (min 500
             (time_of_day_pattern ((hour_of t + h) mod 24) (ma + tr * real h / 24))))),
          confidence = ''medium''\<rparr>) [0..<nat (hours_ahead req)])\<rparr>"
      by simp
  qed
qed

lemma error_dict_clock:
  "forecast_aqi req now1 = Inr (ErrorDict m) \<Longrightarrow> forecast_aqi req now2 = Inr (ErrorDict m)"
  by (auto simp add: forecast_aqi_def try_except_def Let_def split: if_splits sum.splits)

text \<open>
  Claim C1, as stated, fails for the forecaster: it reads the clock. The same request
  (24 readings with aqi = 80, one hour ahead) answered at 03:00 and at 12:00 of
  2024-01-01 gives different timestamps and different predictions, 72 and 80.
\<close>

theorem forecast_aqi_clock_counterexample:
  "forecast_aqi \<lparr>historical_data = replicate 24 [''aqi'' \<mapsto> 80], location = Map.empty, hours_ahead = 1\<rparr>
       63839674800000000
     = Inr (ForecastDict
         \<lparr>location = Map.empty, forecast_generated_at = 63839674800000000,
          forecasts = [\<lparr>timestamp = 63839674800000000, predicted_aqi = 72, category = ''moderate'', confidence = ''medium''\<rparr>],
          trend = ''stable'',
          best_activity_times = [\<lparr>time = 63839674800000000, aqi = 72, suitable_for = ''all_activities''\<rparr>]\<rparr>) \<and>
   forecast_aqi \<lparr>historical_data = replicate 24 [''aqi'' \<mapsto> 80], location = Map.empty, hours_ahead = 1\<rparr>
       63839707200000000
     = Inr (ForecastDict
         \<lparr>location = Map.empty, forecast_generated_at = 63839707200000000,
          forecasts = [\<lparr>timestamp = 63839707200000000, predicted_aqi = 80, category = ''moderate'', confidence = ''medium''\<rparr>],
          trend = ''stable'',
          best_activity_times = [\<lparr>time = 63839707200000000, aqi = 80, suitable_for = ''all_activities''\<rparr>]\<rparr>)"
  using
    forecast_identical_80
      [where r = "[''aqi'' \<mapsto> 80]" and n = 1 and now = 63839674800000000 and loc = Map.empty]
    forecast_identical_80
      [where r = "[''aqi'' \<mapsto> 80]" and n = 1 and now = 63839707200000000 and loc = Map.empty]
  by (simp add: hour_of_def time_of_day_pattern_def py_round_def datetime_max_def
      find_best_activity_times_def best_time_entries_def)

text \<open>
  Claim C1, amended. The output of \<open>forecast_aqi\<close> is a function of the request and
  of the clock reading taken by the call. Two calls with the same request return the
  same error dict when one of them returns it; when both return a forecast, they
  return the same trend label, the same location and series of the same length; the
  predicted_aqi values and the categories are the same when the two clock readings
  have the same hour of day; and the whole output, timestamps included, is the same
  when the two clock readings are the same. The other components read nothing but
  their arguments.
\<close>

theorem forecast_aqi_clock_dependence:
  "(forecast_aqi req now1 = Inr (ErrorDict m) \<longrightarrow> forecast_aqi req now2 = Inr (ErrorDict m)) \<and>
   (forecast_aqi req now1 = Inr (ForecastDict f1) \<and> forecast_aqi req now2 = Inr (ForecastDict f2) \<longrightarrow>
      trend f1 = trend f2 \<and>
      ForecastSeries.location f1 = ForecastSeries.location f2 \<and>
      length (forecasts f1) = length (forecasts f2) \<and>
      (hour_of now1 = hour_of now2 \<longrightarrow>
         map predicted_aqi (forecasts f1) = map predicted_aqi (forecasts f2) \<and>
         map ForecastPoint.category (forecasts f1) = map ForecastPoint.category (forecasts f2)) \<and>
      (now1 = now2 \<longrightarrow> f1 = f2))"
proof (intro conjI impI)
  assume "forecast_aqi req now1 = Inr (ErrorDict m)"
  then show "forecast_aqi req now2 = Inr (ErrorDict m)" by (rule error_dict_clock)
next
  assume a: "forecast_aqi req now1 = Inr (ForecastDict f1) \<and> forecast_aqi req now2 = Inr (ForecastDict f2)"
  then have a1: "forecast_aqi req now1 = Inr (ForecastDict f1)"
    and a2: "forecast_aqi req now2 = Inr (ForecastDict f2)" by simp_all
  from forecast_aqi_ForecastDict [OF a1] obtain ma tr where
    shape: "\<And>t f'. forecast_aqi req t = Inr (ForecastDict f') \<Longrightarrow>
      f' = \<lparr>location = ForecastRequest.location req, forecast_generated_at = t,
        forecasts = map (\<lambda>h. \<lparr>timestamp = t + h * 3600000000,
          predicted_aqi = py_round (max 0 (min 500
             (time_of_day_pattern ((hour_of t + h) mod 24) (ma + tr * real h / 24)))),
          category = get_aqi_category (py_int (max 0 (min 500
             (time_of_day_pattern ((hour_of t + h) mod 24) (ma + tr * real h / 24))))),
          confidence = ''medium''\<rparr>) [0..<nat (hours_ahead req)],
        trend = (if tr < - 5 then ''improving'' else if tr > 5 then ''worsening'' else ''stable''),
        best_activity_times = find_best_activity_times (map (\<lambda>h. \<lparr>timestamp = t + h * 3600000000,
          predicted_aqi = py_round (max 0 (min 500
             (time_of_day_pattern ((hour_of t + h) mod 24) (ma + tr * real h / 24)))),
          category = get_aqi_category (py_int (max 0 (min 500
             (time_of_day_pattern ((hour_of t + h) mod 24) (ma + tr * real h / 24))))),
          confidence = ''medium''\<rparr>) [0..<nat (hours_ahead req)])\<rparr>"
    by blast
  note s1 = shape [OF a1] and s2 = shape [OF a2]
  show "trend f1 = trend f2" by (subst s1, subst s2) simp
  show "ForecastSeries.location f1 = ForecastSeries.location f2" by (subst s1, subst s2) simp
  show "length (forecasts f1) = length (forecasts f2)" by (subst s1, subst s2) simp
  show "map predicted_aqi (forecasts f1) = map predicted_aqi (forecasts f2)"
    if "hour_of now1 = hour_of now2"
    using that by (subst s1, subst s2) (simp add: comp_def)
  show "map ForecastPoint.category (forecasts f1) = map ForecastPoint.category (forecasts f2)"
    if "hour_of now1 = hour_of now2"
    using that by (subst s1, subst s2) (simp add: comp_def)
  show "f1 = f2" if "now1 = now2"
    using a1 a2 that by simp
qed

theorem forecast_aqi_clock_dependence_witness:
  "hour_of 63839674800000000 = hour_of 63839761200000000 \<and>
   (case (forecast_aqi \<lparr>historical_data = replicate 24 [''aqi'' \<mapsto> 80], location = Map.empty, hours_ahead = 1\<rparr>
            63839674800000000,
          forecast_aqi \<lparr>historical_data = replicate 24 [''aqi'' \<mapsto> 80], location = Map.empty, hours_ahead = 1\<rparr>
            63839761200000000) of
      (Inr (ForecastDict f1), Inr (ForecastDict f2)) \<Rightarrow>
        trend f1 = trend f2 \<and>
        map predicted_aqi (forecasts f1) = map predicted_aqi (forecasts f2) \<and>
        map ForecastPoint.category (forecasts f1) = map ForecastPoint.category (forecasts f2)
    | _ \<Rightarrow> False)"
  using
    forecast_aqi_clock_dependence
      [of "\<lparr>historical_data = replicate 24 [''aqi'' \<mapsto> 80], location = Map.empty, hours_ahead = 1\<rparr>"
          63839674800000000 _ 63839761200000000]
    forecast_identical_80
      [where r = "[''aqi'' \<mapsto> 80]" and n = 1 and now = 63839674800000000 and loc = Map.empty]
    forecast_identical_80
      [where r = "[''aqi'' \<mapsto> 80]" and n = 1 and now = 63839761200000000 and loc = Map.empty]
  by (simp add: hour_of_def datetime_max_def)

section \<open>Properties of the exposure accumulator\<close>

lemma breathing_rate_of_cases:
  "breathing_rate_of lbl =
     (if lbl = ''resting'' then 8 else if lbl = ''light'' then 15
      else if lbl = ''moderate'' then 25 else if lbl = ''intense'' then 40 else 15)"
  by (simp add: breathing_rate_of_def breathing_rates_def)

lemma overflow_threshold_large: "100 < overflow_threshold"
  by (simp add: overflow_threshold_def)

lemma breathing_factor:
  "true_divide (breathing_rate_of lbl) 15
     = Inr (to_binary64 (real_of_int (breathing_rate_of lbl) / 15))"
  using overflow_threshold_large
  by (simp add: true_divide_def to_binary64_def breathing_rate_of_cases)

lemma float_of_int_in_range:
  "\<bar>real_of_int n\<bar> < overflow_threshold \<Longrightarrow>
   float_of_int n = Inr (to_binary64 (real_of_int n))"
  by (auto simp add: float_of_int_def to_binary64_def)

lemma true_divide_100_in_range:
  "\<bar>real_of_int n / 100\<bar> < overflow_threshold \<Longrightarrow>
   true_divide n 100 = Inr (to_binary64 (real_of_int n / 100))"
  by (auto simp add: true_divide_def to_binary64_def)

lemma interval_exposure_in_range:
  "\<bar>real_of_int (a * d)\<bar> < overflow_threshold \<Longrightarrow>
   interval_exposure a d (breathing_rate_of lbl) = Inr (exposure_term (a, d, lbl))"
  by (simp add: interval_exposure_def breathing_factor float_of_int_in_range exposure_term_def)

lemma exposure_loop_in_range:
  assumes "\<forall>i \<in> set idx. \<bar>real_of_int (a ! i * d ! i)\<bar> < overflow_threshold
                         \<and> \<bar>real_of_int (a ! i) / 100\<bar> < overflow_threshold"
  shows "exposure_loop a d l idx (t, w) =
     Inr (foldl fadd t (map (\<lambda>i. exposure_term (a ! i, d ! i, l ! i)) idx),
          foldl fadd w (map (\<lambda>i. weighted_term (a ! i, d ! i, l ! i)) idx))"
  using assms
proof (induction idx arbitrary: t w)
  case Nil
  then show ?case by simp
next
  case (Cons i idx)
  then show ?case
    by (simp add: Let_def interval_exposure_in_range true_divide_100_in_range weighted_term_def)
qed

lemma map_index_zip:
  assumes "length a = length d" "length a = length l"
  shows "map (\<lambda>i. f (a ! i, d ! i, l ! i)) [0..<length a] = map f (zip a (zip d l))"
  using assms by (intro nth_equalityI) simp_all

lemma interval_exposure_fails:
  "interval_exposure a d (breathing_rate_of lbl) = Inl e \<Longrightarrow> e = OverflowError"
  by (auto simp add: interval_exposure_def breathing_factor float_of_int_def
      split: sum.splits if_splits)

lemma true_divide_100_fails: "true_divide n 100 = Inl e \<Longrightarrow> e = OverflowError"
  by (auto simp add: true_divide_def split: if_splits)

lemma exposure_loop_fails:
  "exposure_loop a d l idx acc = Inl e \<Longrightarrow> e = OverflowError"
proof (induction idx arbitrary: acc)
  case Nil
  then show ?case by simp
next
  case (Cons i idx)
  obtain t w where acc: "acc = (t, w)" by (cases acc)
  from Cons.prems show ?case
    unfolding acc
    by (auto simp add: Let_def split: sum.splits
        dest: interval_exposure_fails true_divide_100_fails Cons.IH)
qed

lemma round_float_fails:
  "round_float x = Inl e \<Longrightarrow> e = OverflowError \<or> e = ValueError"
  by (cases x) auto

lemma exposure_level_ok: "\<exists>r. get_exposure_recommendation (exposure_risk_level w) = Inr r"
  by (simp add: get_exposure_recommendation_def exposure_risk_level_def exposure_recommendations_def)

lemma exposure_level_never_fails:
  "get_exposure_recommendation (exposure_risk_level w) \<noteq> Inl e"
  by (simp add: get_exposure_recommendation_def exposure_risk_level_def exposure_recommendations_def)

lemma calculate_exposure_mismatch:
  "length a \<noteq> length d \<or> length a \<noteq> length l \<Longrightarrow>
   \<exists>e. calculate_exposure a d l = Inl e \<and>
       original_exception e = HTTPException 400 (Text ''All arrays must have same length'')"
  by (simp add: calculate_exposure_def try_except_def)

lemma calculate_exposure_equal_fails:
  assumes "length a = length d" "length a = length l"
    and "calculate_exposure a d l = Inl e"
  shows "original_exception e = OverflowError \<or> original_exception e = ValueError"
  using assms
  unfolding calculate_exposure_def try_except_def Let_def
  by (auto simp add: exposure_level_never_fails split: sum.splits prod.splits if_splits
      dest!: exposure_loop_fails round_float_fails)

lemma calculate_exposure_returns:
  assumes len: "length a = length d" "length a = length l"
    and range: "\<forall>t \<in> set (zip a (zip d l)).
        \<bar>real_of_int (fst t * fst (snd t))\<bar> < overflow_threshold
        \<and> \<bar>real_of_int (fst t) / 100\<bar> < overflow_threshold"
    and T: "float_sum (map exposure_term (zip a (zip d l))) = Finite T"
    and W: "float_sum (map weighted_term (zip a (zip d l))) = Finite W"
  shows "\<exists>r. calculate_exposure a d l = Inr r \<and>
     total_exposure_score r = py_round T \<and> weighted_exposure r = py_round W"
proof -
  have idx: "\<forall>i \<in> set [0..<length a]. \<bar>real_of_int (a ! i * d ! i)\<bar> < overflow_threshold
                         \<and> \<bar>real_of_int (a ! i) / 100\<bar> < overflow_threshold"
  proof
    fix i assume "i \<in> set [0..<length a]"
    then have i: "i < length a" by simp
    then have "(a ! i, d ! i, l ! i) \<in> set (zip a (zip d l))"
      using len by (auto simp add: set_zip intro!: exI [of _ i])
    with range show "\<bar>real_of_int (a ! i * d ! i)\<bar> < overflow_threshold
                         \<and> \<bar>real_of_int (a ! i) / 100\<bar> < overflow_threshold"
      by fastforce
  qed
  have loop: "exposure_loop a d l [0..<length a] (Finite 0, Finite 0) = Inr (Finite T, Finite W)"
    unfolding exposure_loop_in_range [OF idx]
    using T W by (simp add: map_index_zip [OF len] float_sum_def)
  obtain r where r: "get_exposure_recommendation (exposure_risk_level (Finite W)) = Inr r"
    using exposure_level_ok by blast
  show ?thesis
    using len(1) [symmetric] len(2) [symmetric]
    by (simp add: calculate_exposure_def try_except_def loop r Let_def)
qed

text \<open>
  Claim C7, as stated, fails in what is returned when the lengths are equal. The two
  scores of the summary are rounded to integers: for aqi = [1], duration = [1] and the
  activity resting the sum of the exposures is 8/15 and the weighted sum is 8/1500,
  and the endpoint returns 1 and 0. And equal lengths do not always give a summary:
  for aqi = [10^200], duration = [10^200] and the activity light the product of the
  two integers is beyond the floats and the endpoint raises.
\<close>

theorem calculate_exposure_rounding_counterexample:
  "calculate_exposure [1] [1] [''resting''] =
     Inr \<lparr>total_exposure_score = 1, weighted_exposure = 0, risk_level = ''low'',
          equivalent_hours_at_aqi_100 = Finite 0,
          recommendation =
            ''Your exposure is within safe limits. Continue monitoring air quality.''\<rparr> \<and>
   real_of_int 1 * real_of_int 1 * (real_of_int (breathing_rate_of ''resting'') / 15) = 8 / 15 \<and>
   real_of_int 1 * real_of_int 1 * (real_of_int (breathing_rate_of ''resting'') / 15)
     * (real_of_int 1 / 100) = 8 / 1500 \<and>
   length [10 ^ 200 :: int] = length [''light''] \<and>
   calculate_exposure [10 ^ 200] [10 ^ 200] [''light''] =
     Inl (HTTPException 500 (Prefixed ''Exposure calculation error: '' OverflowError))"
  by (simp add: calculate_exposure_def try_except_def Let_def breathing_rate_of_cases
      interval_exposure_def true_divide_def float_of_int_def to_binary64_def
      overflow_threshold_def round_binary64_def binary_exponent_def halvings.simps
      doublings.simps pow2_def py_round_def exposure_risk_level_def
      get_exposure_recommendation_def exposure_recommendations_def
      fdiv_literal.simps round_float1.simps)

text \<open>
  Claim C7, amended. \<open>calculate_exposure\<close> fails with the exception of its length
  check if and only if the three lists do not all have the same length; the check
  comes before anything is computed. When the lengths are equal, every product
  aqi * duration and every quotient aqi / 100 is within the range of a float, and the
  two sums accumulated in binary64 in list order, T of the exposures
  aqi * duration * (rate / 15) and W of the weighted exposures exposure * (aqi / 100),
  are finite, the endpoint returns a summary whose total_exposure_score is T rounded
  to the nearest integer (ties to even) and whose weighted_exposure is W rounded
  likewise. The breathing rate is 8, 15, 25 and 40 for resting, light, moderate and
  intense, and 15 for every other label.
\<close>

theorem calculate_exposure_lengths:
  "((\<exists>e. calculate_exposure a d l = Inl e \<and>
          original_exception e = HTTPException 400 (Text ''All arrays must have same length''))
      \<longleftrightarrow> (length a \<noteq> length d \<or> length a \<noteq> length l)) \<and>
   (length a = length d \<and> length a = length l \<and>
    (\<forall>t \<in> set (zip a (zip d l)).
        \<bar>real_of_int (fst t * fst (snd t))\<bar> < overflow_threshold
        \<and> \<bar>real_of_int (fst t) / 100\<bar> < overflow_threshold) \<and>
    float_sum (map exposure_term (zip a (zip d l))) = Finite T \<and>
    float_sum (map weighted_term (zip a (zip d l))) = Finite W \<longrightarrow>
      (\<exists>r. calculate_exposure a d l = Inr r \<and>
         total_exposure_score r = py_round T \<and>
         weighted_exposure r = py_round W)) \<and>
   breathing_rate_of ''resting'' = 8 \<and> breathing_rate_of ''light'' = 15 \<and>
   breathing_rate_of ''moderate'' = 25 \<and> breathing_rate_of ''intense'' = 40 \<and>
   (lbl \<noteq> ''resting'' \<and> lbl \<noteq> ''light'' \<and> lbl \<noteq> ''moderate'' \<and> lbl \<noteq> ''intense'' \<longrightarrow>
      breathing_rate_of lbl = 15)"
proof -
  have iff: "(\<exists>e. calculate_exposure a d l = Inl e \<and>
          original_exception e = HTTPException 400 (Text ''All arrays must have same length''))
      \<longleftrightarrow> (length a \<noteq> length d \<or> length a \<noteq> length l)"
  proof
    assume "\<exists>e. calculate_exposure a d l = Inl e \<and>
          original_exception e = HTTPException 400 (Text ''All arrays must have same length'')"
    then obtain e where e: "calculate_exposure a d l = Inl e"
      and o: "original_exception e = HTTPException 400 (Text ''All arrays must have same length'')"
      by blast
    show "length a \<noteq> length d \<or> length a \<noteq> length l"
    proof (rule ccontr)
      assume "\<not> (length a \<noteq> length d \<or> length a \<noteq> length l)"
      then have "length a = length d" "length a = length l" by simp_all
      from calculate_exposure_equal_fails [OF this e] o show False by simp
    qed
  next
    assume "length a \<noteq> length d \<or> length a \<noteq> length l"
    then show "\<exists>e. calculate_exposure a d l = Inl e \<and>
          original_exception e = HTTPException 400 (Text ''All arrays must have same length'')"
      by (rule calculate_exposure_mismatch)
  qed
  have returns: "length a = length d \<and> length a = length l \<and>
    (\<forall>t \<in> set (zip a (zip d l)).
        \<bar>real_of_int (fst t * fst (snd t))\<bar> < overflow_threshold
        \<and> \<bar>real_of_int (fst t) / 100\<bar> < overflow_threshold) \<and>
    float_sum (map exposure_term (zip a (zip d l))) = Finite T \<and>
    float_sum (map weighted_term (zip a (zip d l))) = Finite W \<longrightarrow>
      (\<exists>r. calculate_exposure a d l = Inr r \<and>
         total_exposure_score r = py_round T \<and>
         weighted_exposure r = py_round W)"
    using calculate_exposure_returns [of a d l T W] by blast
  have rates: "breathing_rate_of ''resting'' = 8 \<and> breathing_rate_of ''light'' = 15 \<and>
      breathing_rate_of ''moderate'' = 25 \<and> breathing_rate_of ''intense'' = 40 \<and>
      (lbl \<noteq> ''resting'' \<and> lbl \<noteq> ''light'' \<and> lbl \<noteq> ''moderate'' \<and> lbl \<noteq> ''intense'' \<longrightarrow>
         breathing_rate_of lbl = 15)"
    by (simp add: breathing_rate_of_cases)
  from iff returns rates show ?thesis by blast
qed

theorem calculate_exposure_lengths_witness:
  "length [50, 60::int] \<noteq> length [30::int] \<and>
   (case calculate_exposure [50, 60] [30] [] of
      Inl e \<Rightarrow> original_exception e = HTTPException 400 (Text ''All arrays must have same length'')
    | Inr r \<Rightarrow> False) \<and>
   length [7::int] = length [30::int] \<and> length [7::int] = length [''moderate''] \<and>
   \<bar>real_of_int (7 * 30)\<bar> < overflow_threshold \<and>
   \<bar>real_of_int 7 / 100\<bar> < overflow_threshold \<and>
   float_sum (map exposure_term (zip [7] (zip [30] [''moderate'']))) = Finite 350 \<and>
   float_sum (map weighted_term (zip [7] (zip [30] [''moderate''])))
     = Finite (6896136929411073 / 281474976710656) \<and>
   py_round (6896136929411073 / 281474976710656) = 25 \<and>
   (case calculate_exposure [7] [30] [''moderate''] of
      Inl e \<Rightarrow> False
    | Inr r \<Rightarrow> total_exposure_score r = 350 \<and> weighted_exposure r = 25) \<and>
   breathing_rate_of ''cycling'' = 15"
  using calculate_exposure_lengths [of "[50, 60]" "[30]" "[]" _ _ "''cycling''"]
    calculate_exposure_lengths
      [of "[7]" "[30]" "[''moderate'']" 350 "6896136929411073 / 281474976710656" "''cycling''"]
  by (simp add: calculate_exposure_def try_except_def Let_def breathing_rate_of_cases
      interval_exposure_def true_divide_def float_of_int_def to_binary64_def
      overflow_threshold_def round_binary64_def binary_exponent_def halvings.simps
      doublings.simps pow2_def py_round_def exposure_risk_level_def
      get_exposure_recommendation_def exposure_recommendations_def
      float_sum_def exposure_term_def weighted_term_def)

end
